theory Spec2Isabelle
  imports Main "HOL-Library.AList"
begin

section \<open>JavaScript values\<close>

text \<open>
  Request bodies, stored documents and response bodies are JSON. Numbers are restricted to
  integers. An object is an association list: a property is read with \<open>map_of\<close> and the
  order of the list is the order \<open>Object.keys\<close> enumerates. A JavaScript value is a JSON
  value or \<open>undefined\<close>, which is what reading a missing property gives; \<open>undefined\<close> is
  \<open>None\<close>.
\<close>

datatype json =
    Null
  | JBool bool
  | JNum int
  | JStr string
  | JArr "json list"
  | JObj "(string \<times> json) list"

type_synonym jsval = "json option"

datatype js_error = TypeError string | StoreError string | JsonWebTokenError string

fun message :: "js_error \<Rightarrow> string" where
  "message (TypeError m) = m"
| "message (StoreError m) = m"
| "message (JsonWebTokenError m) = m"

text \<open>\<open>!v\<close> is true exactly for the falsy values: \<open>undefined\<close>, \<open>null\<close>, \<open>false\<close>, \<open>0\<close> and the
  empty string. Arrays and objects are truthy.\<close>

fun truthy :: "jsval \<Rightarrow> bool" where
  "truthy None = False"
| "truthy (Some Null) = False"
| "truthy (Some (JBool b)) = b"
| "truthy (Some (JNum n)) = (n \<noteq> 0)"
| "truthy (Some (JStr s)) = (s \<noteq> [])"
| "truthy (Some (JArr xs)) = True"
| "truthy (Some (JObj kvs)) = True"

text \<open>\<open>a || b\<close>\<close>

definition js_or :: "jsval \<Rightarrow> jsval \<Rightarrow> jsval" where
  "js_or a b = (if truthy a then a else b)"

text \<open>
  \<open>o.name\<close> and the destructuring \<open>const { name } = o\<close>: a TypeError when \<open>o\<close> is
  \<open>undefined\<close> or \<open>null\<close>, the property of an object, \<open>undefined\<close> otherwise.
\<close>

fun get_prop :: "jsval \<Rightarrow> string \<Rightarrow> js_error + jsval" where
  "get_prop None k = Inl (TypeError (''Cannot read properties of undefined (reading '' @ k @ '')''))"
| "get_prop (Some Null) k = Inl (TypeError (''Cannot read properties of null (reading '' @ k @ '')''))"
| "get_prop (Some (JObj kvs)) k = Inr (map_of kvs k)"
| "get_prop (Some v) k = Inr None"

text \<open>\<open>a !== b\<close> is \<open>\<not> strict_eq a b\<close>: primitives compare by value, and an array or object
  that came out of the store is never the array or object that came out of the request.\<close>

fun strict_eq :: "jsval \<Rightarrow> jsval \<Rightarrow> bool" where
  "strict_eq None b = (b = None)"
| "strict_eq (Some (JArr xs)) b = False"
| "strict_eq (Some (JObj kvs)) b = False"
| "strict_eq (Some a) b = (b = Some a)"

text \<open>\<open>s.split(c)\<close> for a separator of one character.\<close>

fun js_split :: "char \<Rightarrow> string \<Rightarrow> string list" where
  "js_split c [] = [[]]"
| "js_split c (x # xs) =
     (if x = c then [] # js_split c xs
      else (case js_split c xs of w # ws \<Rightarrow> (x # w) # ws | [] \<Rightarrow> [[x]]))"

text \<open>\<open>xs[i]\<close> on an array: \<open>undefined\<close> out of range.\<close>

definition js_index :: "json list \<Rightarrow> nat \<Rightarrow> jsval" where
  "js_index xs i = (if i < length xs then Some (xs ! i) else None)"

text \<open>Decimal digits of a number, for the string conversion.\<close>

definition digit :: "nat \<Rightarrow> char" where
  "digit n = ''0123456789'' ! (n mod 10)"

function show_nat :: "nat \<Rightarrow> string" where
  "show_nat n = (if n < 10 then [digit n] else show_nat (n div 10) @ [digit n])"
  by pat_completeness auto
termination
  by (relation "measure id") auto

declare show_nat.simps [simp del]

definition show_int :: "int \<Rightarrow> string" where
  "show_int i = (if i < 0 then CHR ''-'' # show_nat (nat (- i)) else show_nat (nat i))"

fun join_comma :: "string list \<Rightarrow> string" where
  "join_comma [] = []"
| "join_comma [s] = s"
| "join_comma (s # t # ss) = s @ '','' @ join_comma (t # ss)"

text \<open>
  The string conversion of template literals and of computed property keys: an array is its
  elements joined by commas, a \<open>null\<close> element being empty.
\<close>

fun json_toString :: "json \<Rightarrow> string" where
  "json_toString Null = ''null''"
| "json_toString (JBool b) = (if b then ''true'' else ''false'')"
| "json_toString (JNum n) = show_int n"
| "json_toString (JStr s) = s"
| "json_toString (JArr xs) = join_comma (map (\<lambda>x. if x = Null then [] else json_toString x) xs)"
| "json_toString (JObj kvs) = ''[object Object]''"

definition js_toString :: "jsval \<Rightarrow> string" where
  "js_toString v = (case v of None \<Rightarrow> ''undefined'' | Some j \<Rightarrow> json_toString j)"

text \<open>\<open>Object.keys(o)\<close> of an object, and \<open>o[k]\<close> with a computed key.\<close>

fun object_keys :: "json \<Rightarrow> json list" where
  "object_keys (JObj kvs) = map (\<lambda>kv. JStr (fst kv)) kvs"
| "object_keys v = []"

definition prop_at :: "jsval \<Rightarrow> jsval \<Rightarrow> js_error + jsval" where
  "prop_at obj k = get_prop obj (js_toString k)"

text \<open>
  An object literal \<open>{ k1: v1, ... }\<close> whose values may be \<open>undefined\<close>, as JSON: a property
  that is \<open>undefined\<close> is left out (\<open>JSON.stringify\<close>).
\<close>

fun defined_fields :: "(string \<times> jsval) list \<Rightarrow> (string \<times> json) list" where
  "defined_fields [] = []"
| "defined_fields ((k, None) # r) = defined_fields r"
| "defined_fields ((k, Some j) # r) = (k, j) # defined_fields r"

text \<open>The own enumerable properties \<open>...v\<close> spreads into an object literal.\<close>

definition indexed :: "json list \<Rightarrow> (string \<times> json) list" where
  "indexed xs = zip (map show_nat [0..<length xs]) xs"

fun spread :: "json \<Rightarrow> (string \<times> json) list" where
  "spread (JObj kvs) = kvs"
| "spread (JArr xs) = indexed xs"
| "spread (JStr s) = indexed (map (\<lambda>c. JStr [c]) s)"
| "spread v = []"

section \<open>Time\<close>

text \<open>
  \<open>new Date()\<close> read as its UTC components, and \<open>toISOString\<close>, which prints
  \<open>YYYY-MM-DDTHH:mm:ss.sssZ\<close> with zero padding.
\<close>

record instant =
  year :: nat
  month :: nat
  day :: nat
  hour :: nat
  minute :: nat
  second :: nat
  millisecond :: nat

definition pad2 :: "nat \<Rightarrow> string" where
  "pad2 n = [digit (n div 10), digit n]"

definition pad3 :: "nat \<Rightarrow> string" where
  "pad3 n = digit (n div 100) # pad2 n"

definition pad4 :: "nat \<Rightarrow> string" where
  "pad4 n = digit (n div 1000) # pad3 n"

definition iso_date :: "instant \<Rightarrow> string" where
  "iso_date d = pad4 (year d) @ ''-'' @ pad2 (month d) @ ''-'' @ pad2 (day d)"

definition iso_time :: "instant \<Rightarrow> string" where
  "iso_time d =
     pad2 (hour d) @ '':'' @ pad2 (minute d) @ '':'' @ pad2 (second d) @ ''.''
       @ pad3 (millisecond d) @ ''Z''"

definition toISOString :: "instant \<Rightarrow> string" where
  "toISOString d = iso_date d @ ''T'' @ iso_time d"

section \<open>The document store\<close>

text \<open>
  Modelled from the spec: the hosted document store and its client (\<open>firebase-admin\<close>) are
  not in the repository. The store is a tree of JSON values addressed by slash-separated
  paths, and the operations are the six primitives of the specification's Resource
  Accessor: read a path, read the children whose field equals a value, push under a
  generated key, set, update (merge) and delete. A path that holds nothing reads as
  \<open>null\<close>. The children of a node are listed in the store's key order, which is the order
  a snapshot enumerates them; a write under a new key appends it, and the keys the handlers
  create in a collection, generated keys and dates, increase with time.

  The client checks its arguments before it calls the service, and a handler answers a
  refusal with status 500 from its \<open>catch\<close>: a path has to be a non-empty string without
  \<open>.\<close>, \<open>#\<close>, \<open>$\<close>, \<open>[\<close>, \<open>]\<close> or a control character; a value to store must not be
  \<open>undefined\<close>, and the keys of its objects have to be non-empty strings without these
  characters and without \<open>/\<close>.
  The update and delete of an employee record are taken on the spec's UpdateAt and DeleteAt
  at the exact path. Limits on sizes and depths, server values, and the failures of the
  service itself are outside this contract.
\<close>

type_synonym path = "string list"

definition control_char :: "char \<Rightarrow> bool" where
  "control_char c = ((of_char c :: nat) < 32 \<or> (of_char c :: nat) = 127)"

definition path_char :: "char \<Rightarrow> bool" where
  "path_char c = (c \<notin> set ''.#$[]'' \<and> \<not> control_char c)"

definition key_char :: "char \<Rightarrow> bool" where
  "key_char c = (path_char c \<and> c \<noteq> CHR ''/'')"

definition parse_path :: "string \<Rightarrow> path" where
  "parse_path s = filter (\<lambda>k. k \<noteq> []) (js_split CHR ''/'' s)"

definition children :: "json \<Rightarrow> (string \<times> json) list" where
  "children node = (case node of JObj kvs \<Rightarrow> kvs | _ \<Rightarrow> [])"

definition child :: "json \<Rightarrow> string \<Rightarrow> json" where
  "child node k = (case map_of (children node) k of Some v \<Rightarrow> v | None \<Rightarrow> Null)"

primrec read_at :: "json \<Rightarrow> path \<Rightarrow> json" where
  "read_at node [] = node"
| "read_at node (k # ks) = read_at (child node k) ks"

text \<open>\<open>snapshot.exists()\<close>\<close>

definition snapshot_exists :: "json \<Rightarrow> bool" where
  "snapshot_exists v = (v \<noteq> Null)"

primrec set_at :: "json \<Rightarrow> path \<Rightarrow> json \<Rightarrow> json" where
  "set_at node [] v = v"
| "set_at node (k # ks) v =
     JObj (AList.update k (set_at (child node k) ks v) (children node))"

text \<open>The keys the client accepts inside a value to store.\<close>

definition valid_key :: "string \<Rightarrow> bool" where
  "valid_key k = (k \<noteq> [] \<and> list_all key_char k)"

fun valid_data :: "json \<Rightarrow> bool" where
  "valid_data (JObj kvs) = list_all (\<lambda>kv. valid_key (fst kv) \<and> valid_data (snd kv)) kvs"
| "valid_data (JArr xs) = list_all valid_data xs"
| "valid_data v = True"

text \<open>
  A value the store holds exactly as it is given: not \<open>null\<close> (setting \<open>null\<close> removes),
  no array (held as an object keyed by the indices), and objects that are not empty, with
  distinct valid keys, of such values.
\<close>

fun storable :: "json \<Rightarrow> bool" where
  "storable Null = False"
| "storable (JArr xs) = False"
| "storable (JObj kvs) =
     (kvs \<noteq> [] \<and> distinct (map fst kvs)
      \<and> list_all (\<lambda>kv. valid_key (fst kv) \<and> storable (snd kv)) kvs)"
| "storable v = True"

text \<open>\<open>ref.set(value)\<close> with a value, and with an object literal.\<close>

definition db_set :: "json \<Rightarrow> path \<Rightarrow> jsval \<Rightarrow> js_error + json" where
  "db_set root p v =
     (case v of
        None \<Rightarrow> Inl (StoreError ''set failed: value argument contains undefined'')
      | Some j \<Rightarrow>
          if valid_data j then Inr (set_at root p j)
          else Inl (StoreError ''set failed: value argument contains an invalid key''))"

definition db_set_object :: "json \<Rightarrow> path \<Rightarrow> (string \<times> jsval) list \<Rightarrow> js_error + json" where
  "db_set_object root p fs =
     (if list_ex (\<lambda>kv. snd kv = None) fs
      then Inl (StoreError ''set failed: value argument contains undefined'')
      else db_set root p (Some (JObj (defined_fields fs))))"

text \<open>\<open>ref.push(value)\<close>: the child under the generated key is set unless the value is
  \<open>undefined\<close> or \<open>null\<close>.\<close>

definition db_push :: "json \<Rightarrow> path \<Rightarrow> string \<Rightarrow> jsval \<Rightarrow> js_error + json" where
  "db_push root p key v =
     (case v of
        None \<Rightarrow> Inr root
      | Some Null \<Rightarrow> Inr root
      | Some j \<Rightarrow> db_set root (p @ [key]) (Some j))"

text \<open>Merge: each field of the partial value replaces or adds that field; the others stay.\<close>

definition merge_fields :: "(string \<times> json) list \<Rightarrow> (string \<times> json) list \<Rightarrow> (string \<times> json) list" where
  "merge_fields old new = fold (\<lambda>kv acc. AList.update (fst kv) (snd kv) acc) new old"

definition update_at :: "json \<Rightarrow> path \<Rightarrow> (string \<times> json) list \<Rightarrow> json" where
  "update_at root p fs = set_at root p (JObj (merge_fields (children (read_at root p)) fs))"

text \<open>\<open>ref.update(value)\<close>: the value has to be an object.\<close>

definition db_update :: "json \<Rightarrow> path \<Rightarrow> jsval \<Rightarrow> js_error + json" where
  "db_update root p v =
     (case v of
        Some (JObj fs) \<Rightarrow> Inr (update_at root p fs)
      | _ \<Rightarrow> Inl (StoreError ''update failed: value argument must be an object''))"

primrec delete_at :: "json \<Rightarrow> path \<Rightarrow> json" where
  "delete_at node [] = Null"
| "delete_at node (k # ks) =
     (if child node k = Null then node
      else if ks = [] then JObj (AList.delete k (children node))
      else JObj (AList.update k (delete_at (child node k) ks) (children node)))"

text \<open>\<open>ref.orderByChild(field).equalTo(value).once('value')\<close>, then \<open>snapshot.val()\<close>:
  the matching children as an object, or \<open>null\<close> when there is none.\<close>

definition read_filtered :: "json \<Rightarrow> path \<Rightarrow> string \<Rightarrow> jsval \<Rightarrow> json" where
  "read_filtered root p field v =
     (case filter (\<lambda>kv. map_of (children (snd kv)) field = v \<and> v \<noteq> None)
             (children (read_at root p)) of
        [] \<Rightarrow> Null
      | kvs \<Rightarrow> JObj kvs)"

text \<open>\<open>db.ref(path)\<close>: the root when no path is given, the parsed path of a string the
  client accepts.\<close>

definition valid_path_string :: "string \<Rightarrow> bool" where
  "valid_path_string s = (s \<noteq> [] \<and> list_all path_char s)"

definition db_ref :: "jsval \<Rightarrow> js_error + path" where
  "db_ref p =
     (case p of
        None \<Rightarrow> Inr []
      | Some (JStr s) \<Rightarrow>
          if valid_path_string s then Inr (parse_path s)
          else Inl (StoreError ''ref failed: path is an invalid path'')
      | _ \<Rightarrow> Inl (StoreError ''ref failed: path must be a string''))"

section \<open>Signed tokens\<close>

text \<open>
  Modelled from the spec: the token library (\<open>jsonwebtoken\<close>) is not in the repository.
  Issue encodes the claims with an issue time and an expiry 24 hours later and signs them
  with the shared secret; Verify gives the decoded claims, or fails when the signature does
  not validate under the secret or the token has expired. The signature is a perfect MAC:
  a tag records the key and the message it was computed over, and validates exactly under
  that key for that message. The compact serialisation of a token as a string and its
  parser are the two functions \<open>jwt_encode\<close> and \<open>jwt_decode\<close> of the environment.
  Verify refuses a credential that is not a string.
\<close>

datatype jwt_payload =
  Payload (claims: "(string \<times> json) list") (issued_at: nat) (expires_at: nat)

datatype jwt = Jwt (payload: jwt_payload) (mac_key: string) (mac_msg: jwt_payload)

text \<open>
  What a handler reads from outside the request: the token codec, \<open>process.env.JWT_SECRET\<close>,
  the clock in seconds (for the token times) and as a date (for \<open>new Date()\<close>), and the
  key the store generates for the next \<open>push()\<close>.
\<close>

record env =
  jwt_encode :: "jwt \<Rightarrow> string"
  jwt_decode :: "string \<Rightarrow> jwt option"
  JWT_SECRET :: string
  clock :: nat
  date_now :: instant
  push_key :: string

definition issue :: "env \<Rightarrow> (string \<times> json) list \<Rightarrow> jwt" where
  "issue e cs =
     (let p = Payload cs (clock e) (clock e + 86400) in Jwt p (JWT_SECRET e) p)"

text \<open>\<open>jwt.sign(payload, process.env.JWT_SECRET, { expiresIn: '24h' })\<close>\<close>

definition jwt_sign :: "env \<Rightarrow> (string \<times> jsval) list \<Rightarrow> string" where
  "jwt_sign e cs = jwt_encode e (issue e (defined_fields cs))"

definition decoded :: "jwt_payload \<Rightarrow> json" where
  "decoded p =
     JObj (claims p @ [(''iat'', JNum (int (issued_at p))), (''exp'', JNum (int (expires_at p)))])"

text \<open>\<open>jwt.verify(token, process.env.JWT_SECRET)\<close>\<close>

definition jwt_verify :: "env \<Rightarrow> jsval \<Rightarrow> js_error + json" where
  "jwt_verify e tok =
     (case tok of
        Some (JStr s) \<Rightarrow>
          (case jwt_decode e s of
             None \<Rightarrow> Inl (JsonWebTokenError ''jwt malformed'')
           | Some t \<Rightarrow>
               if mac_key t \<noteq> JWT_SECRET e \<or> mac_msg t \<noteq> payload t
               then Inl (JsonWebTokenError ''invalid signature'')
               else if expires_at (payload t) \<le> clock e
               then Inl (JsonWebTokenError ''jwt expired'')
               else Inr (decoded (payload t)))
      | _ \<Rightarrow> Inl (JsonWebTokenError ''jwt must be a string''))"

section \<open>Requests and responses\<close>

record request =
  req_authorization :: "string option"
  req_param :: string
  req_body :: jsval
  req_user :: jsval

record response =
  res_status :: nat
  res_json :: json

text \<open>\<open>res.json(v)\<close> answers with status 200, \<open>res.status(n).json(v)\<close> with \<open>n\<close>.\<close>

definition reply :: "nat \<Rightarrow> json \<Rightarrow> response" where
  "reply n v = \<lparr>res_status = n, res_json = v\<rparr>"

definition object :: "(string \<times> jsval) list \<Rightarrow> json" where
  "object fs = JObj (defined_fields fs)"

text \<open>
  \<open>try { ... } catch (error) { ... }\<close>: a handler body either throws or gives its response
  and the store it leaves. No body below throws after a write.
\<close>

definition try_catch ::
  "json \<Rightarrow> (js_error \<Rightarrow> response) \<Rightarrow> js_error + (response \<times> json) \<Rightarrow> response \<times> json" where
  "try_catch root handler r = (case r of Inl err \<Rightarrow> (handler err, root) | Inr x \<Rightarrow> x)"

section \<open>Generic save\<close>

text \<open>\<open>POST /api/save\<close> of \<open>src/unnamed/part_000\<close>.\<close>

definition save :: "env \<Rightarrow> json \<Rightarrow> request \<Rightarrow> response \<times> json" where
  "save e root req =
     try_catch root
       (\<lambda>err. reply 500 (object [(''error'', Some (JStr ''Failed to save data'')),
                                  (''details'', Some (JStr (message err)))]))
       (case get_prop (req_body req) ''path'' of Inl err \<Rightarrow> Inl err | Inr path \<Rightarrow>
        case get_prop (req_body req) ''data'' of Inl err \<Rightarrow> Inl err | Inr data \<Rightarrow>
          if \<not> truthy path \<or> \<not> truthy data
          then Inr (reply 400 (object [(''error'', Some (JStr ''Path and data required''))]), root)
          else
            (case db_ref path of Inl err \<Rightarrow> Inl err | Inr p \<Rightarrow>
             case db_set root (p @ [push_key e]) data of Inl err \<Rightarrow> Inl err | Inr root' \<Rightarrow>
               Inr (reply 200
                      (object [(''success'', Some (JBool True)),
                               (''message'', Some (JStr (''Data saved to '' @ js_toString path))),
                               (''data'', data)]),
                    root')))"

text \<open>\<open>POST /api/save\<close> of \<open>src/terait-backend/api/index.js\<close> (its first application):
  no presence check; \<open>ref.push(data)\<close> writes nothing when \<open>data\<close> is \<open>undefined\<close> or
  \<open>null\<close>.\<close>

definition save_index_js :: "env \<Rightarrow> json \<Rightarrow> request \<Rightarrow> response \<times> json" where
  "save_index_js e root req =
     try_catch root
       (\<lambda>err. reply 500 (object [(''error'', Some (JStr (message err)))]))
       (case get_prop (req_body req) ''path'' of Inl err \<Rightarrow> Inl err | Inr path \<Rightarrow>
        case get_prop (req_body req) ''data'' of Inl err \<Rightarrow> Inl err | Inr data \<Rightarrow>
        case db_ref path of Inl err \<Rightarrow> Inl err | Inr p \<Rightarrow>
        case db_push root p (push_key e) data of Inl err \<Rightarrow> Inl err | Inr root' \<Rightarrow>
          Inr (reply 201 (object [(''message'', Some (JStr ''Saved successfully''))]), root'))"

section \<open>Login and registration\<close>

text \<open>
  \<open>POST /api/login\<close>. The two files differ in one expression, the user id taken from the
  matching users: \<open>Object.keys(userData)[0]\<close> in \<open>src/unnamed/part_000\<close>,
  \<open>Object.keys(userData)\<close> in \<open>src/terait-backend/api/index.js\<close>.
\<close>

definition login_with :: "(json \<Rightarrow> jsval) \<Rightarrow> env \<Rightarrow> json \<Rightarrow> request \<Rightarrow> response \<times> json" where
  "login_with user_id_of e root req =
     try_catch root
       (\<lambda>err. reply 500 (object [(''error'', Some (JStr ''Login failed'')),
                                  (''details'', Some (JStr (message err)))]))
       (case get_prop (req_body req) ''email'' of Inl err \<Rightarrow> Inl err | Inr email \<Rightarrow>
        case get_prop (req_body req) ''password'' of Inl err \<Rightarrow> Inl err | Inr password \<Rightarrow>
          if \<not> truthy email \<or> \<not> truthy password
          then Inr (reply 400 (object [(''error'', Some (JStr ''Email and password required''))]), root)
          else
            (let userData = read_filtered root (parse_path ''users'') ''email'' email in
             if \<not> snapshot_exists userData
             then Inr (reply 401 (object [(''error'', Some (JStr ''Invalid credentials''))]), root)
             else
               (let userId = user_id_of userData in
                case prop_at (Some userData) userId of Inl err \<Rightarrow> Inl err | Inr user \<Rightarrow>
                case get_prop user ''password'' of Inl err \<Rightarrow> Inl err | Inr stored \<Rightarrow>
                  if \<not> strict_eq stored password
                  then Inr (reply 401 (object [(''error'', Some (JStr ''Invalid credentials''))]), root)
                  else
                    (case get_prop user ''email'' of Inl err \<Rightarrow> Inl err | Inr user_email \<Rightarrow>
                     case get_prop user ''role'' of Inl err \<Rightarrow> Inl err | Inr user_role \<Rightarrow>
                     case get_prop user ''name'' of Inl err \<Rightarrow> Inl err | Inr user_name \<Rightarrow>
                       (let token = jwt_sign e [(''userId'', userId), (''email'', user_email),
                                                (''role'', user_role)]
                        in Inr (reply 200
                                  (object [(''success'', Some (JBool True)),
                                           (''token'', Some (JStr token)),
                                           (''user'', Some (object [(''id'', userId),
                                                                    (''email'', user_email),
                                                                    (''name'', user_name),
                                                                    (''role'', user_role)]))]),
                                root))))))"

definition login :: "env \<Rightarrow> json \<Rightarrow> request \<Rightarrow> response \<times> json" where
  "login = login_with (\<lambda>userData. js_index (object_keys userData) 0)"

definition login_index_js :: "env \<Rightarrow> json \<Rightarrow> request \<Rightarrow> response \<times> json" where
  "login_index_js = login_with (\<lambda>userData. Some (JArr (object_keys userData)))"

text \<open>\<open>POST /api/register\<close>, the same in both files.\<close>

definition register :: "env \<Rightarrow> json \<Rightarrow> request \<Rightarrow> response \<times> json" where
  "register e root req =
     try_catch root
       (\<lambda>err. reply 500 (object [(''error'', Some (JStr ''Registration failed'')),
                                  (''details'', Some (JStr (message err)))]))
       (case get_prop (req_body req) ''email'' of Inl err \<Rightarrow> Inl err | Inr email \<Rightarrow>
        case get_prop (req_body req) ''password'' of Inl err \<Rightarrow> Inl err | Inr password \<Rightarrow>
        case get_prop (req_body req) ''name'' of Inl err \<Rightarrow> Inl err | Inr name \<Rightarrow>
        case get_prop (req_body req) ''role'' of Inl err \<Rightarrow> Inl err | Inr role \<Rightarrow>
          if \<not> truthy email \<or> \<not> truthy password \<or> \<not> truthy name
          then Inr (reply 400 (object [(''error'', Some (JStr ''Email, password, and name required''))]),
                    root)
          else if snapshot_exists (read_filtered root (parse_path ''users'') ''email'' email)
          then Inr (reply 400 (object [(''error'', Some (JStr ''User already exists''))]), root)
          else
            (let userId = Some (JStr (push_key e)) in
             case db_set_object root (parse_path ''users'' @ [push_key e])
                    [(''email'', email), (''password'', password), (''name'', name),
                     (''role'', js_or role (Some (JStr ''user''))),
                     (''createdAt'', Some (JStr (toISOString (date_now e))))]
             of Inl err \<Rightarrow> Inl err | Inr root' \<Rightarrow>
               (let token = jwt_sign e [(''userId'', userId), (''email'', email),
                                        (''role'', js_or role (Some (JStr ''user'')))]
                in Inr (reply 200
                          (object [(''success'', Some (JBool True)),
                                   (''token'', Some (JStr token)),
                                   (''user'', Some (object [(''id'', userId), (''email'', email),
                                                            (''name'', name),
                                                            (''role'', js_or role (Some (JStr ''user'')))]))]),
                        root'))))"

section \<open>The token middleware\<close>

text \<open>
  \<open>verifyToken\<close> either answers itself or attaches the decoded claims and calls \<open>next()\<close>.
  The two files differ in the token taken from the header:
  \<open>req.headers.authorization?.split(' ')[1]\<close> in \<open>src/unnamed/part_000\<close>,
  \<open>req.headers.authorization?.split(' ')\<close> in \<open>src/terait-backend/api/index.js\<close>.
\<close>

datatype middleware_result = Respond response | Next request

definition verifyToken_with :: "(json list \<Rightarrow> jsval) \<Rightarrow> env \<Rightarrow> request \<Rightarrow> middleware_result" where
  "verifyToken_with pick e req =
     (let token = (case req_authorization req of
                     None \<Rightarrow> None
                   | Some h \<Rightarrow> pick (map JStr (js_split CHR '' '' h)))
      in if \<not> truthy token
         then Respond (reply 401 (object [(''error'', Some (JStr ''No token provided''))]))
         else
           (case jwt_verify e token of
              Inr d \<Rightarrow> Next (req\<lparr>req_user := Some d\<rparr>)
            | Inl err \<Rightarrow> Respond (reply 401 (object [(''error'', Some (JStr ''Invalid token''))]))))"

definition verifyToken :: "env \<Rightarrow> request \<Rightarrow> middleware_result" where
  "verifyToken = verifyToken_with (\<lambda>parts. js_index parts 1)"

definition verifyToken_index_js :: "env \<Rightarrow> request \<Rightarrow> middleware_result" where
  "verifyToken_index_js = verifyToken_with (\<lambda>parts. Some (JArr parts))"

section \<open>Protected routes\<close>

text \<open>\<open>snapshot.forEach\<close> building \<open>{ id: childSnapshot.key, ...childSnapshot.val() }\<close>.\<close>

definition with_ids :: "json \<Rightarrow> json" where
  "with_ids snapshot =
     JArr (map (\<lambda>kv. JObj (merge_fields [(''id'', JStr (fst kv))] (spread (snd kv))))
             (children snapshot))"

text \<open>\<open>GET /api/employees\<close>\<close>

definition get_employees :: "env \<Rightarrow> json \<Rightarrow> request \<Rightarrow> response \<times> json" where
  "get_employees e root req =
     try_catch root
       (\<lambda>err. reply 500 (object [(''error'', Some (JStr ''Failed to fetch employees''))]))
       (let snapshot = read_at root (parse_path ''employees'') in
        if \<not> snapshot_exists snapshot then Inr (reply 200 (JArr []), root)
        else Inr (reply 200 (with_ids snapshot), root))"

text \<open>\<open>POST /api/employees\<close>\<close>

definition create_employee :: "env \<Rightarrow> json \<Rightarrow> request \<Rightarrow> response \<times> json" where
  "create_employee e root req =
     try_catch root
       (\<lambda>err. reply 500 (object [(''error'', Some (JStr ''Failed to create employee''))]))
       (case get_prop (req_body req) ''name'' of Inl err \<Rightarrow> Inl err | Inr name \<Rightarrow>
        case get_prop (req_body req) ''email'' of Inl err \<Rightarrow> Inl err | Inr email \<Rightarrow>
        case get_prop (req_body req) ''role'' of Inl err \<Rightarrow> Inl err | Inr role \<Rightarrow>
        case get_prop (req_body req) ''department'' of Inl err \<Rightarrow> Inl err | Inr department \<Rightarrow>
        case db_set_object root (parse_path ''employees'' @ [push_key e])
               [(''name'', name), (''email'', email), (''role'', role),
                (''department'', department),
                (''createdAt'', Some (JStr (toISOString (date_now e))))]
        of Inl err \<Rightarrow> Inl err | Inr root' \<Rightarrow>
          Inr (reply 200 (object [(''success'', Some (JBool True)),
                                  (''id'', Some (JStr (push_key e))),
                                  (''message'', Some (JStr ''Employee created''))]),
               root'))"

text \<open>\<open>PUT /api/employees/:id\<close>, the same in both files.\<close>

definition update_employee :: "env \<Rightarrow> json \<Rightarrow> request \<Rightarrow> response \<times> json" where
  "update_employee e root req =
     try_catch root
       (\<lambda>err. reply 500 (object [(''error'', Some (JStr ''Failed to update employee''))]))
       (case db_update root (parse_path (''employees/'' @ req_param req)) (req_body req)
        of Inl err \<Rightarrow> Inl err | Inr root' \<Rightarrow>
          Inr (reply 200 (object [(''success'', Some (JBool True)),
                                  (''message'', Some (JStr ''Employee updated''))]),
               root'))"

text \<open>\<open>DELETE /api/employees/:id\<close>, the same in both files.\<close>

definition delete_employee :: "env \<Rightarrow> json \<Rightarrow> request \<Rightarrow> response \<times> json" where
  "delete_employee e root req =
     try_catch root
       (\<lambda>err. reply 500 (object [(''error'', Some (JStr ''Failed to delete employee''))]))
       (Inr (reply 200 (object [(''success'', Some (JBool True)),
                                (''message'', Some (JStr ''Employee deleted''))]),
             delete_at root (parse_path (''employees/'' @ req_param req))))"

text \<open>\<open>GET /api/attendance/:employeeId\<close>\<close>

definition get_attendance :: "env \<Rightarrow> json \<Rightarrow> request \<Rightarrow> response \<times> json" where
  "get_attendance e root req =
     try_catch root
       (\<lambda>err. reply 500 (object [(''error'', Some (JStr ''Failed to fetch attendance''))]))
       (case db_ref (Some (JStr (''attendance/'' @ req_param req))) of Inl err \<Rightarrow> Inl err
        | Inr p \<Rightarrow>
          (let snapshot = read_at root p in
           if \<not> snapshot_exists snapshot then Inr (reply 200 (JArr []), root)
           else Inr (reply 200 (with_ids snapshot), root)))"

text \<open>
  \<open>POST /api/attendance/login\<close>. The two files differ in the date key:
  \<open>now.toISOString().split('T')[0]\<close> in \<open>src/unnamed/part_000\<close>,
  \<open>now.toISOString().split('T')\<close> in \<open>src/terait-backend/api/index.js\<close>.
\<close>

definition attendance_path :: "(json list \<Rightarrow> jsval) \<Rightarrow> instant \<Rightarrow> jsval \<Rightarrow> string" where
  "attendance_path pick now employeeId =
     (let dateKey = pick (map JStr (js_split CHR ''T'' (toISOString now)))
      in ''attendance/'' @ js_toString employeeId @ ''/'' @ js_toString dateKey)"

definition attendance_login_with ::
  "(json list \<Rightarrow> jsval) \<Rightarrow> env \<Rightarrow> json \<Rightarrow> request \<Rightarrow> response \<times> json" where
  "attendance_login_with pick e root req =
     try_catch root
       (\<lambda>err. reply 500 (object [(''error'', Some (JStr ''Failed to log attendance''))]))
       (case get_prop (req_body req) ''employeeId'' of Inl err \<Rightarrow> Inl err | Inr employeeId \<Rightarrow>
        case db_ref (Some (JStr (attendance_path pick (date_now e) employeeId)))
        of Inl err \<Rightarrow> Inl err | Inr p \<Rightarrow>
        case db_set_object root p
               [(''loginTime'', Some (JStr (toISOString (date_now e)))),
                (''status'', Some (JStr ''present''))]
        of Inl err \<Rightarrow> Inl err | Inr root' \<Rightarrow>
          Inr (reply 200 (object [(''success'', Some (JBool True)),
                                  (''message'', Some (JStr ''Login recorded''))]),
               root'))"

definition attendance_login :: "env \<Rightarrow> json \<Rightarrow> request \<Rightarrow> response \<times> json" where
  "attendance_login = attendance_login_with (\<lambda>parts. js_index parts 0)"

definition attendance_login_index_js :: "env \<Rightarrow> json \<Rightarrow> request \<Rightarrow> response \<times> json" where
  "attendance_login_index_js = attendance_login_with (\<lambda>parts. Some (JArr parts))"

text \<open>\<open>app.METHOD(path, verifyToken, handler)\<close>: the handler runs when the middleware calls
  \<open>next()\<close>, on the request the middleware passes on.\<close>

datatype route =
    GetEmployees
  | PostEmployees
  | PutEmployee
  | DeleteEmployee
  | GetAttendance
  | PostAttendanceLogin

definition guarded ::
  "(env \<Rightarrow> request \<Rightarrow> middleware_result) \<Rightarrow> (env \<Rightarrow> json \<Rightarrow> request \<Rightarrow> response \<times> json)
     \<Rightarrow> env \<Rightarrow> json \<Rightarrow> request \<Rightarrow> response \<times> json" where
  "guarded g h e root req =
     (case g e req of Respond r \<Rightarrow> (r, root) | Next req' \<Rightarrow> h e root req')"

text \<open>The handlers behind the protected routes, and the routes, of \<open>src/unnamed/part_000\<close>.\<close>

fun handler :: "route \<Rightarrow> env \<Rightarrow> json \<Rightarrow> request \<Rightarrow> response \<times> json" where
  "handler GetEmployees = get_employees"
| "handler PostEmployees = create_employee"
| "handler PutEmployee = update_employee"
| "handler DeleteEmployee = delete_employee"
| "handler GetAttendance = get_attendance"
| "handler PostAttendanceLogin = attendance_login"

definition protected :: "route \<Rightarrow> env \<Rightarrow> json \<Rightarrow> request \<Rightarrow> response \<times> json" where
  "protected rt = guarded verifyToken (handler rt)"

text \<open>The same of \<open>src/terait-backend/api/index.js\<close>.\<close>

fun handler_index_js :: "route \<Rightarrow> env \<Rightarrow> json \<Rightarrow> request \<Rightarrow> response \<times> json" where
  "handler_index_js PostAttendanceLogin = attendance_login_index_js"
| "handler_index_js rt = handler rt"

definition protected_index_js :: "route \<Rightarrow> env \<Rightarrow> json \<Rightarrow> request \<Rightarrow> response \<times> json" where
  "protected_index_js rt = guarded verifyToken_index_js (handler_index_js rt)"

section \<open>Concrete inputs\<close>

text \<open>
  An environment for the concrete runs below: its codec knows the serialisations listed in
  a table, the secret is \<open>s3cret\<close>, the clock reads 1000 seconds and
  2026-11-03T10:20:30.000Z, and the next generated key is \<open>-Nk1\<close>.
\<close>

definition table_encode :: "(string \<times> jwt) list \<Rightarrow> jwt \<Rightarrow> string" where
  "table_encode tbl t = (case find (\<lambda>kv. snd kv = t) tbl of Some kv \<Rightarrow> fst kv | None \<Rightarrow> [])"

definition demo_env :: "(string \<times> jwt) list \<Rightarrow> env" where
  "demo_env tbl =
     \<lparr>jwt_encode = table_encode tbl, jwt_decode = map_of tbl, JWT_SECRET = ''s3cret'',
      clock = 1000,
      date_now = \<lparr>year = 2026, month = 11, day = 3, hour = 10, minute = 20, second = 30,
                  millisecond = 0\<rparr>,
      push_key = ''-Nk1''\<rparr>"

definition request_of :: "string option \<Rightarrow> string \<Rightarrow> jsval \<Rightarrow> request" where
  "request_of h p b = \<lparr>req_authorization = h, req_param = p, req_body = b, req_user = None\<rparr>"

definition demo_store :: json where
  "demo_store =
     JObj [(''users'',
            JObj [(''-Nu1'', JObj [(''email'', JStr ''ana@x.com''), (''password'', JStr ''pw1''),
                                   (''name'', JStr ''Ana''), (''role'', JStr ''admin'')])]),
           (''employees'',
            JObj [(''-Ne1'', JObj [(''name'', JStr ''Ana''), (''email'', JStr ''ana@x.com''),
                                   (''role'', JStr ''tech''), (''department'', JStr ''ops'')])])]"

definition bob_token :: jwt where
  "bob_token =
     (let p = Payload [(''userId'', JStr ''-Nk1''), (''email'', JStr ''bob@x.com''),
                       (''role'', JStr ''user'')] 1000 87400
      in Jwt p ''s3cret'' p)"

definition ana_token :: "string \<Rightarrow> jwt" where
  "ana_token r =
     (let p = Payload [(''userId'', JStr ''-Nu1''), (''email'', JStr ''ana@x.com''),
                       (''role'', JStr r)] 900 87300
      in Jwt p ''s3cret'' p)"

definition demo_tokens :: "(string \<times> jwt) list" where
  "demo_tokens = [(''tok.bob'', bob_token), (''tok.admin'', ana_token ''admin''),
                  (''tok.user'', ana_token ''user'')]"

definition login_token :: "json \<Rightarrow> jwt" where
  "login_token uid =
     (let p = Payload [(''userId'', uid), (''email'', JStr ''ana@x.com''),
                       (''role'', JStr ''admin'')] 1000 87400
      in Jwt p ''s3cret'' p)"

definition login_tokens :: "(string \<times> jwt) list" where
  "login_tokens = [(''tok.login'', login_token (JStr ''-Nu1'')),
                   (''tok.login.array'', login_token (JArr [JStr ''-Nu1'']))]"

definition twin_store :: json where
  "twin_store =
     JObj [(''users'',
            JObj [(''-Nu1'', JObj [(''email'', JStr ''ana@x.com''), (''password'', JStr ''pw1''),
                                   (''name'', JStr ''Ana''), (''role'', JStr ''admin'')]),
                  (''-Nu2'', JObj [(''email'', JStr ''ana@x.com''), (''password'', JStr ''pw1''),
                                   (''name'', JStr ''Ana''), (''role'', JStr ''admin'')])])]"

definition ana_login :: request where
  "ana_login =
     request_of None []
       (Some (JObj [(''email'', JStr ''ana@x.com''), (''password'', JStr ''pw1'')]))"

definition carol_token :: jwt where
  "carol_token =
     (let p = Payload [(''userId'', JStr ''-Nk1''), (''email'', JStr ''carol@x.com''),
                       (''role'', JStr ''manager'')] 1000 87400
      in Jwt p ''s3cret'' p)"

definition register_tokens :: "(string \<times> jwt) list" where
  "register_tokens = [(''tok.bob'', bob_token), (''tok.carol'', carol_token)]"

definition e1_login :: "string \<Rightarrow> request" where
  "e1_login tok =
     request_of (Some (''Bearer '' @ tok)) [] (Some (JObj [(''employeeId'', JStr ''e1'')]))"

section \<open>Generic save: presence validation and response shape\<close>

lemma storable_valid_data: "storable d \<Longrightarrow> valid_data d"
  by (induction d rule: storable.induct) (auto simp: list_all_iff)

lemma storable_not_Null: "storable d \<Longrightarrow> d \<noteq> Null"
  by auto

text \<open>
  C8 (as amended). In \<open>src/unnamed/part_000\<close>, \<open>POST /api/save\<close> answers 400 and leaves the
  store alone when \<open>path\<close> or \<open>data\<close> is missing or otherwise falsy; when \<open>path\<close> is a
  string the store client accepts and \<open>data\<close> is truthy and storable as given, it stores the
  data under the generated key beneath the path and answers
  \<open>{success: true, message, data}\<close> with the data echoed. The \<open>POST /api/save\<close> of
  \<open>src/terait-backend/api/index.js\<close> checks nothing: with such a path it answers 201 with
  \<open>{message}\<close> alone, storing nothing when \<open>data\<close> is missing and the data when it is
  storable.
\<close>

theorem save_validates_presence:
  assumes "req_body req = Some (JObj kvs)"
  shows "(\<not> truthy (map_of kvs ''path'') \<or> \<not> truthy (map_of kvs ''data'') \<longrightarrow>
            save e root req = (reply 400 (JObj [(''error'', JStr ''Path and data required'')]), root))
       \<and> (\<forall>p d. map_of kvs ''path'' = Some (JStr p) \<and> valid_path_string p
                  \<and> map_of kvs ''data'' = Some d \<and> truthy (Some d) \<and> storable d \<longrightarrow>
            save e root req =
              (reply 200 (JObj [(''success'', JBool True),
                                (''message'', JStr (''Data saved to '' @ p)), (''data'', d)]),
               set_at root (parse_path p @ [push_key e]) d))
       \<and> (\<forall>p. map_of kvs ''path'' = Some (JStr p) \<and> valid_path_string p
                \<and> map_of kvs ''data'' = None \<longrightarrow>
            save_index_js e root req =
              (reply 201 (JObj [(''message'', JStr ''Saved successfully'')]), root))
       \<and> (\<forall>p d. map_of kvs ''path'' = Some (JStr p) \<and> valid_path_string p
                  \<and> map_of kvs ''data'' = Some d \<and> storable d \<longrightarrow>
            save_index_js e root req =
              (reply 201 (JObj [(''message'', JStr ''Saved successfully'')]),
               set_at root (parse_path p @ [push_key e]) d))"
proof (intro conjI allI impI)
  assume "\<not> truthy (map_of kvs ''path'') \<or> \<not> truthy (map_of kvs ''data'')"
  with assms show "save e root req =
      (reply 400 (JObj [(''error'', JStr ''Path and data required'')]), root)"
    by (auto simp: save_def try_catch_def object_def)
next
  fix p d
  assume h: "map_of kvs ''path'' = Some (JStr p) \<and> valid_path_string p
      \<and> map_of kvs ''data'' = Some d \<and> truthy (Some d) \<and> storable d"
  then have "p \<noteq> []" "valid_data d"
    by (auto simp: valid_path_string_def path_char_def control_char_def storable_valid_data)
  with assms h show "save e root req =
      (reply 200 (JObj [(''success'', JBool True),
                        (''message'', JStr (''Data saved to '' @ p)), (''data'', d)]),
       set_at root (parse_path p @ [push_key e]) d)"
    by (simp add: save_def try_catch_def object_def db_ref_def db_set_def js_toString_def)
next
  fix p
  assume "map_of kvs ''path'' = Some (JStr p) \<and> valid_path_string p \<and> map_of kvs ''data'' = None"
  with assms show "save_index_js e root req =
      (reply 201 (JObj [(''message'', JStr ''Saved successfully'')]), root)"
    by (simp add: save_index_js_def try_catch_def object_def db_ref_def db_push_def)
next
  fix p d
  assume h: "map_of kvs ''path'' = Some (JStr p) \<and> valid_path_string p
      \<and> map_of kvs ''data'' = Some d \<and> storable d"
  then have "valid_data d" "d \<noteq> Null"
    by (auto simp: storable_valid_data)
  with assms h show "save_index_js e root req =
      (reply 201 (JObj [(''message'', JStr ''Saved successfully'')]),
       set_at root (parse_path p @ [push_key e]) d)"
    by (cases d) (simp_all add: save_index_js_def try_catch_def object_def db_ref_def db_push_def
          db_set_def)
qed

theorem save_validates_presence_witness:
  "save (demo_env []) Null (request_of None [] (Some (JObj [(''path'', JStr ''tickets'')]))) =
     (reply 400 (JObj [(''error'', JStr ''Path and data required'')]), Null)
   \<and> save (demo_env []) Null
        (request_of None []
           (Some (JObj [(''path'', JStr ''tickets''), (''data'', JObj [(''title'', JStr ''fan'')])]))) =
     (reply 200 (JObj [(''success'', JBool True), (''message'', JStr ''Data saved to tickets''),
                       (''data'', JObj [(''title'', JStr ''fan'')])]),
      JObj [(''tickets'', JObj [(''-Nk1'', JObj [(''title'', JStr ''fan'')])])])
   \<and> save_index_js (demo_env []) Null
        (request_of None [] (Some (JObj [(''path'', JStr ''tickets'')]))) =
     (reply 201 (JObj [(''message'', JStr ''Saved successfully'')]), Null)
   \<and> save_index_js (demo_env []) Null
        (request_of None []
           (Some (JObj [(''path'', JStr ''tickets''), (''data'', JObj [(''title'', JStr ''fan'')])]))) =
     (reply 201 (JObj [(''message'', JStr ''Saved successfully'')]),
      JObj [(''tickets'', JObj [(''-Nk1'', JObj [(''title'', JStr ''fan'')])])])"
proof -
  have v: "valid_path_string ''tickets''" "storable (JObj [(''title'', JStr ''fan'')])"
    by (simp_all add: valid_path_string_def path_char_def control_char_def valid_key_def key_char_def path_char_def control_char_def)
  have s: "set_at Null (parse_path ''tickets'' @ [push_key (demo_env [])])
             (JObj [(''title'', JStr ''fan'')]) =
           JObj [(''tickets'', JObj [(''-Nk1'', JObj [(''title'', JStr ''fan'')])])]"
    by (simp add: demo_env_def parse_path_def children_def child_def)
  from save_validates_presence
         [of "request_of None [] (Some (JObj [(''path'', JStr ''tickets'')]))"
             "[(''path'', JStr ''tickets'')]" "demo_env []" Null]
       save_validates_presence
         [of "request_of None []
                (Some (JObj [(''path'', JStr ''tickets''), (''data'', JObj [(''title'', JStr ''fan'')])]))"
             "[(''path'', JStr ''tickets''), (''data'', JObj [(''title'', JStr ''fan'')])]"
             "demo_env []" Null]
       v s
  show ?thesis by (simp add: request_of_def)
qed

text \<open>The claim as stated fails in \<open>src/terait-backend/api/index.js\<close>: a body without
  \<open>data\<close> is answered 201, not 400.\<close>

theorem save_index_js_counterexample:
  "save_index_js (demo_env []) Null (request_of None [] (Some (JObj [(''path'', JStr ''tickets'')])))
     = (\<lparr>res_status = 201, res_json = JObj [(''message'', JStr ''Saved successfully'')]\<rparr>, Null)"
  by (simp add: save_index_js_def try_catch_def object_def db_ref_def db_push_def
        valid_path_string_def path_char_def control_char_def request_of_def reply_def)

text \<open>A path the store client refuses is answered 500 by both routes, and nothing is
  written.\<close>

lemma save_refuses_invalid_path:
  assumes "req_body req = Some (JObj kvs)"
    and "map_of kvs ''path'' = Some (JStr p)" "\<not> valid_path_string p"
    and "truthy (Some (JStr p))" "truthy (map_of kvs ''data'')"
  shows "res_status (fst (save e root req)) = 500 \<and> snd (save e root req) = root"
  using assms by (simp add: save_def try_catch_def object_def db_ref_def reply_def)

lemma save_index_js_refuses_invalid_path:
  assumes "req_body req = Some (JObj kvs)"
    and "map_of kvs ''path'' = Some (JStr p)" "\<not> valid_path_string p"
  shows "res_status (fst (save_index_js e root req)) = 500 \<and> snd (save_index_js e root req) = root"
  using assms by (simp add: save_index_js_def try_catch_def object_def db_ref_def reply_def)

lemma save_dotted_path:
  "res_status (fst (save (demo_env []) Null
      (request_of None [] (Some (JObj [(''path'', JStr ''logs/v1.2''), (''data'', JNum 7)]))))) = 500"
  by (simp add: save_def try_catch_def object_def db_ref_def valid_path_string_def path_char_def control_char_def
        request_of_def reply_def)

section \<open>Facts about the store\<close>

lemma child_JObj_update: "child (JObj (AList.update k v al)) k = v"
  by (simp add: child_def children_def update_conv')

lemma read_at_set_at: "read_at (set_at node p v) p = v"
  by (induction p arbitrary: node) (simp_all add: child_JObj_update)




section \<open>Employee update and delete\<close>





section \<open>Registration\<close>

lemma parse_path_users [simp]: "parse_path ''users'' = [''users'']"
  by (simp add: parse_path_def)

lemma snapshot_exists_read_filtered:
  "snapshot_exists (read_filtered root p f v) \<longleftrightarrow>
     (\<exists>kv \<in> set (children (read_at root p)). map_of (children (snd kv)) f = v \<and> v \<noteq> None)"
proof -
  let ?m = "filter (\<lambda>kv. map_of (children (snd kv)) f = v \<and> v \<noteq> None) (children (read_at root p))"
  have "snapshot_exists (read_filtered root p f v) \<longleftrightarrow> ?m \<noteq> []"
    by (simp add: snapshot_exists_def read_filtered_def split: list.splits)
  also have "\<dots> \<longleftrightarrow> (\<exists>kv \<in> set (children (read_at root p)). map_of (children (snd kv)) f = v \<and> v \<noteq> None)"
    unfolding filter_empty_conv by blast
  finally show ?thesis .
qed

lemma truthy_Some: "truthy v \<Longrightarrow> \<exists>j. v = Some j"
  by (cases v) simp_all

text \<open>
  C4. When a user record with the email of the body exists, \<open>POST /api/register\<close> answers
  with status 400 and leaves the store unchanged, so no second record is created; when
  email, password and name pass the presence check the answer is the duplicate-user error
  \<open>User already exists\<close>.
\<close>

theorem register_duplicate_rejected:
  assumes "req_body req = Some (JObj kvs)"
    and "\<exists>kv \<in> set (children (read_at root [''users''])).
            map_of (children (snd kv)) ''email'' = map_of kvs ''email''"
  shows "res_status (fst (register e root req)) = 400
       \<and> snd (register e root req) = root
       \<and> (truthy (map_of kvs ''email'') \<and> truthy (map_of kvs ''password'')
            \<and> truthy (map_of kvs ''name'') \<longrightarrow>
          register e root req = (reply 400 (JObj [(''error'', JStr ''User already exists'')]), root))"
proof (cases "truthy (map_of kvs ''email'') \<and> truthy (map_of kvs ''password'') \<and> truthy (map_of kvs ''name'')")
  case True
  then have "map_of kvs ''email'' \<noteq> None" by (auto dest: truthy_Some)
  with assms(2) have "snapshot_exists (read_filtered root [''users''] ''email'' (map_of kvs ''email''))"
    unfolding snapshot_exists_read_filtered by blast
  with True assms(1) show ?thesis
    by (simp add: register_def try_catch_def object_def reply_def)
next
  case False
  with assms(1) show ?thesis
    by (auto simp: register_def try_catch_def object_def reply_def)
qed

theorem register_duplicate_rejected_witness:
  "register (demo_env []) demo_store
     (request_of None []
        (Some (JObj [(''email'', JStr ''ana@x.com''), (''password'', JStr ''other''),
                     (''name'', JStr ''Ana B'')]))) =
     (reply 400 (JObj [(''error'', JStr ''User already exists'')]), demo_store)"
proof -
  let ?kvs = "[(''email'', JStr ''ana@x.com''), (''password'', JStr ''other''), (''name'', JStr ''Ana B'')]"
  let ?req = "request_of None [] (Some (JObj ?kvs))"
  have h1: "req_body ?req = Some (JObj ?kvs)"
    by (simp add: request_of_def)
  have h2: "\<exists>kv \<in> set (children (read_at demo_store [''users''])).
              map_of (children (snd kv)) ''email'' = map_of ?kvs ''email''"
    by (simp add: demo_store_def child_def children_def)
  from register_duplicate_rejected [OF h1 h2, of "demo_env []"] show ?thesis
    by simp
qed

text \<open>
  C2 (as amended). For a body whose email, password and name are non-empty strings, whose
  role is a non-empty string or is missing or falsy, and whose email no stored user has,
  \<open>POST /api/register\<close> answers success, the record is stored under the generated key, and
  the returned token, verified under the signing secret at any time before its expiry,
  decodes to claims with the same email and with the role of the body when that is a
  non-empty string, and the role \<open>user\<close> otherwise. The token is the one the library issues
  for these claims; the codec is assumed to parse back what it serialised for that token.
\<close>

theorem register_new_user:
  assumes body: "req_body req = Some (JObj kvs)"
    and email: "map_of kvs ''email'' = Some (JStr em)" "em \<noteq> []"
    and password: "map_of kvs ''password'' = Some (JStr pw)" "pw \<noteq> []"
    and name: "map_of kvs ''name'' = Some (JStr nm)" "nm \<noteq> []"
    and role: "(map_of kvs ''role'' = Some (JStr r) \<and> r \<noteq> [])
             \<or> (\<not> truthy (map_of kvs ''role'') \<and> r = ''user'')"
    and unregistered: "\<forall>kv \<in> set (children (read_at root [''users''])).
        map_of (children (snd kv)) ''email'' \<noteq> Some (JStr em)"
    and token: "t = issue e [(''userId'', JStr (push_key e)), (''email'', JStr em),
                             (''role'', JStr r)]"
    and codec: "jwt_decode e (jwt_encode e t) = Some t"
    and time: "now < clock e + 86400"
  shows "\<exists>root' d.
      register e root req =
        (reply 200 (JObj [(''success'', JBool True),
                          (''token'', JStr (jwt_encode e t)),
                          (''user'', JObj [(''id'', JStr (push_key e)), (''email'', JStr em),
                                           (''name'', JStr nm), (''role'', JStr r)])]),
         root')
    \<and> read_at root' [''users'', push_key e] =
        JObj [(''email'', JStr em), (''password'', JStr pw), (''name'', JStr nm),
              (''role'', JStr r), (''createdAt'', JStr (toISOString (date_now e)))]
    \<and> jwt_verify (e\<lparr>clock := now\<rparr>) (Some (JStr (jwt_encode e t))) = Inr d
    \<and> get_prop (Some d) ''email'' = Inr (Some (JStr em))
    \<and> get_prop (Some d) ''role'' = Inr (Some (JStr r))"
proof -
  from role have r: "js_or (map_of kvs ''role'') (Some (JStr ''user'')) = Some (JStr r)"
    by (auto simp: js_or_def)
  from unregistered
  have new: "\<not> snapshot_exists (read_filtered root [''users''] ''email'' (Some (JStr em)))"
    unfolding snapshot_exists_read_filtered by blast
  have reg: "register e root req =
        (reply 200 (JObj [(''success'', JBool True),
                          (''token'', JStr (jwt_encode e t)),
                          (''user'', JObj [(''id'', JStr (push_key e)), (''email'', JStr em),
                                           (''name'', JStr nm), (''role'', JStr r)])]),
         set_at root [''users'', push_key e]
           (JObj [(''email'', JStr em), (''password'', JStr pw), (''name'', JStr nm),
                  (''role'', JStr r), (''createdAt'', JStr (toISOString (date_now e)))]))"
    using body email password name new r token
    by (simp add: register_def try_catch_def db_set_object_def db_set_def valid_key_def key_char_def path_char_def control_char_def
          jwt_sign_def object_def)
  have ver: "jwt_verify (e\<lparr>clock := now\<rparr>) (Some (JStr (jwt_encode e t))) =
               Inr (decoded (payload t))"
    using codec time token by (simp add: jwt_verify_def issue_def Let_def)
  have claims: "get_prop (Some (decoded (payload t))) ''email'' = Inr (Some (JStr em))"
    "get_prop (Some (decoded (payload t))) ''role'' = Inr (Some (JStr r))"
    using token by (simp_all add: decoded_def issue_def Let_def)
  have readback: "\<And>v. read_at (set_at root [''users'', push_key e] v) [''users'', push_key e] = v"
    by (rule read_at_set_at)
  from reg ver claims readback show ?thesis
    by blast
qed

theorem register_new_user_witness:
  "(\<exists>root' d.
     register (demo_env register_tokens) demo_store
       (request_of None []
          (Some (JObj [(''email'', JStr ''carol@x.com''), (''password'', JStr ''pw3''),
                       (''name'', JStr ''Carol''), (''role'', JStr ''manager'')]))) =
       (reply 200
          (JObj [(''success'', JBool True), (''token'', JStr ''tok.carol''),
                 (''user'', JObj [(''id'', JStr ''-Nk1''), (''email'', JStr ''carol@x.com''),
                                  (''name'', JStr ''Carol''), (''role'', JStr ''manager'')])]),
        root')
   \<and> read_at root' [''users'', ''-Nk1''] =
       JObj [(''email'', JStr ''carol@x.com''), (''password'', JStr ''pw3''),
             (''name'', JStr ''Carol''), (''role'', JStr ''manager''),
             (''createdAt'', JStr ''2026-11-03T10:20:30.000Z'')]
   \<and> jwt_verify (demo_env register_tokens\<lparr>clock := 5000\<rparr>) (Some (JStr ''tok.carol'')) = Inr d
   \<and> get_prop (Some d) ''email'' = Inr (Some (JStr ''carol@x.com''))
   \<and> get_prop (Some d) ''role'' = Inr (Some (JStr ''manager'')))
 \<and> (\<exists>root' d.
     register (demo_env register_tokens) demo_store
       (request_of None []
          (Some (JObj [(''email'', JStr ''bob@x.com''), (''password'', JStr ''pw2''),
                       (''name'', JStr ''Bob'')]))) =
       (reply 200
          (JObj [(''success'', JBool True), (''token'', JStr ''tok.bob''),
                 (''user'', JObj [(''id'', JStr ''-Nk1''), (''email'', JStr ''bob@x.com''),
                                  (''name'', JStr ''Bob''), (''role'', JStr ''user'')])]),
        root')
   \<and> read_at root' [''users'', ''-Nk1''] =
       JObj [(''email'', JStr ''bob@x.com''), (''password'', JStr ''pw2''),
             (''name'', JStr ''Bob''), (''role'', JStr ''user''),
             (''createdAt'', JStr ''2026-11-03T10:20:30.000Z'')]
   \<and> jwt_verify (demo_env register_tokens\<lparr>clock := 5000\<rparr>) (Some (JStr ''tok.bob'')) = Inr d
   \<and> get_prop (Some d) ''email'' = Inr (Some (JStr ''bob@x.com''))
   \<and> get_prop (Some d) ''role'' = Inr (Some (JStr ''user'')))"
proof -
  let ?e = "demo_env register_tokens"
  let ?ckvs = "[(''email'', JStr ''carol@x.com''), (''password'', JStr ''pw3''),
                (''name'', JStr ''Carol''), (''role'', JStr ''manager'')]"
  let ?bkvs = "[(''email'', JStr ''bob@x.com''), (''password'', JStr ''pw2''), (''name'', JStr ''Bob'')]"
  let ?creq = "request_of None [] (Some (JObj ?ckvs))"
  let ?breq = "request_of None [] (Some (JObj ?bkvs))"
  have iso: "toISOString (date_now ?e) = ''2026-11-03T10:20:30.000Z''"
    by (simp add: demo_env_def toISOString_def iso_date_def iso_time_def pad2_def pad3_def
          pad4_def digit_def)
  have key: "push_key ?e = ''-Nk1''"
    by (simp add: demo_env_def)
  have time: "(5000::nat) < clock ?e + 86400"
    by (simp add: demo_env_def)
  have cenc: "jwt_encode ?e carol_token = ''tok.carol''"
    and benc: "jwt_encode ?e bob_token = ''tok.bob''"
    by (simp_all add: demo_env_def table_encode_def register_tokens_def bob_token_def
          carol_token_def Let_def)
  have ccodec: "jwt_decode ?e (jwt_encode ?e carol_token) = Some carol_token"
    and bcodec: "jwt_decode ?e (jwt_encode ?e bob_token) = Some bob_token"
    unfolding cenc benc by (simp_all add: demo_env_def register_tokens_def)
  have ctok: "carol_token = issue ?e [(''userId'', JStr (push_key ?e)),
                (''email'', JStr ''carol@x.com''), (''role'', JStr ''manager'')]"
    and btok: "bob_token = issue ?e [(''userId'', JStr (push_key ?e)),
                (''email'', JStr ''bob@x.com''), (''role'', JStr ''user'')]"
    by (simp_all add: carol_token_def bob_token_def issue_def demo_env_def Let_def)
  have cnew: "\<forall>kv \<in> set (children (read_at demo_store [''users''])).
                map_of (children (snd kv)) ''email'' \<noteq> Some (JStr ''carol@x.com'')"
    and bnew: "\<forall>kv \<in> set (children (read_at demo_store [''users''])).
                map_of (children (snd kv)) ''email'' \<noteq> Some (JStr ''bob@x.com'')"
    by (simp_all add: demo_store_def child_def children_def)
  have cbody: "req_body ?creq = Some (JObj ?ckvs)" and bbody: "req_body ?breq = Some (JObj ?bkvs)"
    by (simp_all add: request_of_def)
  have cfields: "map_of ?ckvs ''email'' = Some (JStr ''carol@x.com'')" "''carol@x.com'' \<noteq> []"
    "map_of ?ckvs ''password'' = Some (JStr ''pw3'')" "''pw3'' \<noteq> []"
    "map_of ?ckvs ''name'' = Some (JStr ''Carol'')" "''Carol'' \<noteq> []"
    "(map_of ?ckvs ''role'' = Some (JStr ''manager'') \<and> ''manager'' \<noteq> [])
       \<or> (\<not> truthy (map_of ?ckvs ''role'') \<and> ''manager'' = ''user'')"
    by simp_all
  have bfields: "map_of ?bkvs ''email'' = Some (JStr ''bob@x.com'')" "''bob@x.com'' \<noteq> []"
    "map_of ?bkvs ''password'' = Some (JStr ''pw2'')" "''pw2'' \<noteq> []"
    "map_of ?bkvs ''name'' = Some (JStr ''Bob'')" "''Bob'' \<noteq> []"
    "(map_of ?bkvs ''role'' = Some (JStr ''user'') \<and> ''user'' \<noteq> [])
       \<or> (\<not> truthy (map_of ?bkvs ''role'') \<and> ''user'' = ''user'')"
    by simp_all
  note carol = register_new_user [OF cbody cfields cnew ctok ccodec time]
  note bob = register_new_user [OF bbody bfields bnew btok bcodec time]
  from carol bob show ?thesis
    unfolding cenc benc iso key by (rule conjI)
qed

text \<open>The claim as stated fails: a body with email, password and name all present, the name
  being the empty string, is answered 400, and no record is created.\<close>

theorem register_empty_name_counterexample:
  "register (demo_env register_tokens) demo_store
     (request_of None []
        (Some (JObj [(''email'', JStr ''bob@x.com''), (''password'', JStr ''pw2''),
                     (''name'', JStr [])]))) =
     (\<lparr>res_status = 400,
       res_json = JObj [(''error'', JStr ''Email, password, and name required'')]\<rparr>,
      demo_store)"
  by (simp add: register_def try_catch_def object_def reply_def request_of_def)

section \<open>Facts about the token middleware\<close>

text \<open>
  The middleware of \<open>src/unnamed/part_000\<close>: no header is answered 401; with a header of a scheme
  and a token the answer is 401 when verification fails (a signature that does not
  validate, an expired token) and the request goes on with the decoded claims when it
  succeeds. The middleware of \<open>src/terait-backend/api/index.js\<close> hands the array of the split
  to the verifier, which refuses it: no request goes on.
\<close>

lemma js_split_no_sep: "c \<notin> set s \<Longrightarrow> js_split c s = [s]"
  by (induction s) auto

lemma js_split_append:
  "c \<notin> set a \<Longrightarrow> js_split c (a @ c # b) = a # js_split c b"
  by (induction a) auto

lemma js_split_ne: "js_split c s \<noteq> []"
  by (induction s) (auto split: list.splits)

lemma verifyToken_no_header:
  "req_authorization req = None \<Longrightarrow>
     verifyToken e req = Respond (reply 401 (JObj [(''error'', JStr ''No token provided'')]))"
  by (simp add: verifyToken_def verifyToken_with_def object_def)

lemma verifyToken_bearer:
  assumes "req_authorization req = Some (scheme @ '' '' @ tok)"
    and "CHR '' '' \<notin> set scheme" "CHR '' '' \<notin> set tok" "tok \<noteq> []"
  shows "verifyToken e req =
           (case jwt_verify e (Some (JStr tok)) of
              Inr d \<Rightarrow> Next (req\<lparr>req_user := Some d\<rparr>)
            | Inl err \<Rightarrow> Respond (reply 401 (JObj [(''error'', JStr ''Invalid token'')])))"
  using assms
  by (simp add: verifyToken_def verifyToken_with_def object_def js_split_append js_split_no_sep
        js_index_def cong: sum.case_cong)

lemma jwt_verify_tampered:
  "jwt_decode e s = Some t \<Longrightarrow> mac_key t \<noteq> JWT_SECRET e \<or> mac_msg t \<noteq> payload t \<Longrightarrow>
     jwt_verify e (Some (JStr s)) = Inl (JsonWebTokenError ''invalid signature'')"
  by (auto simp: jwt_verify_def)

lemma jwt_verify_expired:
  "jwt_decode e s = Some t \<Longrightarrow> mac_key t = JWT_SECRET e \<Longrightarrow> mac_msg t = payload t \<Longrightarrow>
     expires_at (payload t) \<le> clock e \<Longrightarrow>
     jwt_verify e (Some (JStr s)) = Inl (JsonWebTokenError ''jwt expired'')"
  by (simp add: jwt_verify_def)

lemma jwt_verify_fresh:
  "jwt_decode e' (jwt_encode e (issue e cs)) = Some (issue e cs) \<Longrightarrow>
     JWT_SECRET e' = JWT_SECRET e \<Longrightarrow> clock e' < clock e + 86400 \<Longrightarrow>
     jwt_verify e' (Some (JStr (jwt_encode e (issue e cs)))) = Inr (decoded (payload (issue e cs)))"
  by (simp add: jwt_verify_def issue_def Let_def)

lemma verifyToken_index_js_rejects:
  "verifyToken_index_js e req =
     Respond (reply 401 (JObj [(''error'',
        JStr (if req_authorization req = None then ''No token provided'' else ''Invalid token''))]))"
  by (cases "req_authorization req")
     (simp_all add: verifyToken_index_js_def verifyToken_with_def object_def jwt_verify_def)

text \<open>
  C1. A request carrying a valid, unexpired token is passed on by the middleware of
  \<open>src/unnamed/part_000\<close> with the decoded claims attached, and answered 401
  \<open>Invalid token\<close> by the middleware of \<open>src/terait-backend/api/index.js\<close>.
\<close>

theorem verifyToken_index_js_rejects_valid_token:
  "verifyToken (demo_env demo_tokens) (request_of (Some ''Bearer tok.admin'') [] None) =
     Next \<lparr>req_authorization = Some ''Bearer tok.admin'', req_param = [], req_body = None,
           req_user = Some (JObj [(''userId'', JStr ''-Nu1''), (''email'', JStr ''ana@x.com''),
                                  (''role'', JStr ''admin''), (''iat'', JNum 900),
                                  (''exp'', JNum 87300)])\<rparr>
   \<and> verifyToken_index_js (demo_env demo_tokens) (request_of (Some ''Bearer tok.admin'') [] None) =
     Respond \<lparr>res_status = 401, res_json = JObj [(''error'', JStr ''Invalid token'')]\<rparr>"
  by (simp add: verifyToken_def verifyToken_index_js_def verifyToken_with_def js_index_def
        jwt_verify_def request_of_def demo_env_def demo_tokens_def ana_token_def bob_token_def
        Let_def decoded_def reply_def object_def)

section \<open>Login\<close>

text \<open>
  The outcomes of \<open>POST /api/login\<close>: 400 when email or password fails the presence check,
  401 when no user has the email, and otherwise the password comparison on the user the
  id expression selects. In \<open>src/unnamed/part_000\<close> that is the first matching user; in
  \<open>src/terait-backend/api/index.js\<close> it is the user under the joined keys of all matches,
  who exists when exactly one user matches.
\<close>

lemma read_filtered_cases:
  assumes "v \<noteq> None"
  shows "read_filtered root p f v = Null
       \<or> (\<exists>k u rest. read_filtered root p f v = JObj ((k, JObj u) # rest) \<and> map_of u f = v)"
proof (cases "filter (\<lambda>kv. map_of (children (snd kv)) f = v \<and> v \<noteq> None) (children (read_at root p))")
  case Nil
  then show ?thesis by (simp add: read_filtered_def)
next
  case (Cons kv rest)
  then have "kv \<in> set (filter (\<lambda>kv. map_of (children (snd kv)) f = v \<and> v \<noteq> None) (children (read_at root p)))"
    by simp
  then have m: "map_of (children (snd kv)) f = v" by simp
  with assms obtain u where u: "snd kv = JObj u"
    by (cases "snd kv") (auto simp: children_def)
  with m have "map_of u f = v" by (simp add: children_def)
  moreover have "read_filtered root p f v = JObj ((fst kv, JObj u) # rest)"
    using Cons u by (cases kv) (simp add: read_filtered_def)
  ultimately show ?thesis by blast
qed

lemma login_with_missing:
  assumes "req_body req = Some (JObj kvs)"
    and "\<not> truthy (map_of kvs ''email'') \<or> \<not> truthy (map_of kvs ''password'')"
  shows "login_with pick e root req =
           (reply 400 (JObj [(''error'', JStr ''Email and password required'')]), root)"
  using assms by (auto simp: login_with_def try_catch_def object_def)

lemma login_with_unknown:
  assumes "req_body req = Some (JObj kvs)"
    and "truthy (map_of kvs ''email'')" "truthy (map_of kvs ''password'')"
    and "read_filtered root [''users''] ''email'' (map_of kvs ''email'') = Null"
  shows "login_with pick e root req =
           (reply 401 (JObj [(''error'', JStr ''Invalid credentials'')]), root)"
  using assms by (simp add: login_with_def try_catch_def object_def snapshot_exists_def)

lemma login_with_found:
  assumes "req_body req = Some (JObj kvs)"
    and "truthy (map_of kvs ''email'')" "truthy (map_of kvs ''password'')"
    and "read_filtered root [''users''] ''email'' (map_of kvs ''email'') = JObj matches"
    and "map_of matches (js_toString (pick (JObj matches))) = Some (JObj u)"
  shows "login_with pick e root req =
           (if \<not> strict_eq (map_of u ''password'') (map_of kvs ''password'')
            then (reply 401 (JObj [(''error'', JStr ''Invalid credentials'')]), root)
            else (reply 200
                    (object [(''success'', Some (JBool True)),
                             (''token'', Some (JStr (jwt_sign e
                                 [(''userId'', pick (JObj matches)), (''email'', map_of u ''email''),
                                  (''role'', map_of u ''role'')]))),
                             (''user'', Some (object [(''id'', pick (JObj matches)),
                                                      (''email'', map_of u ''email''),
                                                      (''name'', map_of u ''name''),
                                                      (''role'', map_of u ''role'')]))]),
                  root))"
  using assms
  by (simp add: login_with_def try_catch_def object_def snapshot_exists_def prop_at_def Let_def)

lemma login_first_match:
  assumes "req_body req = Some (JObj kvs)"
    and "truthy (map_of kvs ''email'')" "truthy (map_of kvs ''password'')"
    and "read_filtered root [''users''] ''email'' (map_of kvs ''email'') = JObj ((k, JObj u) # rest)"
  shows "login e root req =
           (if \<not> strict_eq (map_of u ''password'') (map_of kvs ''password'')
            then (reply 401 (JObj [(''error'', JStr ''Invalid credentials'')]), root)
            else (reply 200
                    (object [(''success'', Some (JBool True)),
                             (''token'', Some (JStr (jwt_sign e
                                 [(''userId'', Some (JStr k)), (''email'', map_of u ''email''),
                                  (''role'', map_of u ''role'')]))),
                             (''user'', Some (object [(''id'', Some (JStr k)),
                                                      (''email'', map_of u ''email''),
                                                      (''name'', map_of u ''name''),
                                                      (''role'', map_of u ''role'')]))]),
                  root))"
  unfolding login_def
  using login_with_found [OF assms(1-3), of root "(k, JObj u) # rest"
          "\<lambda>userData. js_index (object_keys userData) 0" u e] assms(4)
  by (simp add: js_index_def js_toString_def)

lemma login_index_js_single_match:
  assumes "req_body req = Some (JObj kvs)"
    and "truthy (map_of kvs ''email'')" "truthy (map_of kvs ''password'')"
    and "read_filtered root [''users''] ''email'' (map_of kvs ''email'') = JObj [(k, JObj u)]"
  shows "login_index_js e root req =
           (if \<not> strict_eq (map_of u ''password'') (map_of kvs ''password'')
            then (reply 401 (JObj [(''error'', JStr ''Invalid credentials'')]), root)
            else (reply 200
                    (object [(''success'', Some (JBool True)),
                             (''token'', Some (JStr (jwt_sign e
                                 [(''userId'', Some (JArr [JStr k])), (''email'', map_of u ''email''),
                                  (''role'', map_of u ''role'')]))),
                             (''user'', Some (object [(''id'', Some (JArr [JStr k])),
                                                      (''email'', map_of u ''email''),
                                                      (''name'', map_of u ''name''),
                                                      (''role'', map_of u ''role'')]))]),
                  root))"
  unfolding login_index_js_def
  using login_with_found [OF assms(1-3), of root "[(k, JObj u)]"
          "\<lambda>userData. Some (JArr (object_keys userData))" u e] assms(4)
  by (simp add: js_toString_def)

lemmas login_defs = login_def login_index_js_def login_with_def try_catch_def object_def
  reply_def read_filtered_def snapshot_exists_def child_def children_def prop_at_def
  js_toString_def js_index_def jwt_sign_def issue_def Let_def

text \<open>
  C3. With two stored users sharing the email and holding the supplied password, the
  login of \<open>src/unnamed/part_000\<close> answers success (status 200) and the login of
  \<open>src/terait-backend/api/index.js\<close> answers 500: its user id is the array of both keys,
  no user is stored under the joined keys, and reading \<open>password\<close> of \<open>undefined\<close> throws.
\<close>

theorem login_index_js_fails_on_shared_email:
  "res_status (fst (login (demo_env login_tokens) twin_store ana_login)) = 200
   \<and> res_status (fst (login_index_js (demo_env login_tokens) twin_store ana_login)) = 500"
  by (simp add: login_defs twin_store_def ana_login_def request_of_def)

text \<open>
  C10. With exactly one stored user matching, the two logins answer success with the same
  email, name and role, but not with the same id nor the same token: the id of
  \<open>src/unnamed/part_000\<close> is the key, a string, and the id of
  \<open>src/terait-backend/api/index.js\<close> is the array holding the key, which is also the
  \<open>userId\<close> claim signed into its token.
\<close>

theorem login_variants_differ_in_id:
  "login (demo_env login_tokens) demo_store ana_login =
     (\<lparr>res_status = 200,
       res_json = JObj [(''success'', JBool True), (''token'', JStr ''tok.login''),
                        (''user'', JObj [(''id'', JStr ''-Nu1''), (''email'', JStr ''ana@x.com''),
                                         (''name'', JStr ''Ana''), (''role'', JStr ''admin'')])]\<rparr>,
      demo_store)
   \<and> login_index_js (demo_env login_tokens) demo_store ana_login =
     (\<lparr>res_status = 200,
       res_json = JObj [(''success'', JBool True), (''token'', JStr ''tok.login.array''),
                        (''user'', JObj [(''id'', JArr [JStr ''-Nu1'']), (''email'', JStr ''ana@x.com''),
                                         (''name'', JStr ''Ana''), (''role'', JStr ''admin'')])]\<rparr>,
      demo_store)"
  by (simp add: login_defs demo_store_def ana_login_def request_of_def demo_env_def
        table_encode_def login_tokens_def login_token_def)

section \<open>Attendance\<close>

text \<open>
  In \<open>src/unnamed/part_000\<close> the record is set at
  \<open>attendance/{employeeId}/{YYYY-MM-DD}\<close>, so a second login on the same date overwrites
  the first. In \<open>src/terait-backend/api/index.js\<close> the path ends in the whole timestamp,
  date and time joined by a comma; the time holds a \<open>.\<close>, the store client refuses the path,
  and the handler answers 500 to every request without writing.
\<close>

lemma digit_is_digit: "digit n \<in> set ''0123456789''"
  unfolding digit_def by (rule nth_mem) simp

lemma digit_not_T [simp]: "digit n \<noteq> CHR ''T''" "CHR ''T'' \<noteq> digit n"
  using digit_is_digit [of n] by auto

lemma T_notin_iso_date: "CHR ''T'' \<notin> set (iso_date d)"
  by (simp add: iso_date_def pad2_def pad3_def pad4_def)

lemma date_key: "js_index (map JStr (js_split CHR ''T'' (toISOString d))) 0 = Some (JStr (iso_date d))"
  unfolding toISOString_def
  using js_split_append [OF T_notin_iso_date, of d "iso_time d"]
  by (simp add: js_index_def)

lemma attendance_path_date:
  "attendance_path (\<lambda>parts. js_index parts 0) d employeeId =
     ''attendance/'' @ js_toString employeeId @ ''/'' @ iso_date d"
  by (simp add: attendance_path_def date_key js_toString_def)


lemma digit_path_char: "path_char (digit n)"
  using digit_is_digit [of n] by (auto simp: path_char_def control_char_def)

lemma iso_date_path_chars: "list_all path_char (iso_date d)"
  by (simp add: iso_date_def pad2_def pad3_def pad4_def digit_path_char)
     (simp add: path_char_def control_char_def)

lemma attendance_path_valid:
  assumes "list_all path_char (js_toString employeeId)"
  shows "valid_path_string (''attendance/'' @ js_toString employeeId @ ''/'' @ iso_date d)"
  using assms iso_date_path_chars [of d]
  by (simp add: valid_path_string_def) (simp add: path_char_def control_char_def)

lemma attendance_login_stores:
  assumes "req_body req = Some (JObj kvs)"
    and "list_all path_char (js_toString (map_of kvs ''employeeId''))"
  shows "attendance_login e root req =
     (reply 200 (JObj [(''success'', JBool True), (''message'', JStr ''Login recorded'')]),
      set_at root
        (parse_path (''attendance/'' @ js_toString (map_of kvs ''employeeId'') @ ''/''
                       @ iso_date (date_now e)))
        (JObj [(''loginTime'', JStr (toISOString (date_now e))), (''status'', JStr ''present'')]))"
  using assms(1) attendance_path_valid [OF assms(2), of "date_now e"]
  by (simp add: attendance_login_def attendance_login_with_def try_catch_def object_def
        db_ref_def db_set_object_def db_set_def valid_key_def key_char_def path_char_def control_char_def attendance_path_date)

lemma set_at_overwrite: "set_at (set_at node p v) p w = set_at node p w"
  by (induction p arbitrary: node) (simp_all add: child_JObj_update children_def)

lemma attendance_login_overwrites:
  assumes "req_body req = Some (JObj kvs)"
    and "list_all path_char (js_toString (map_of kvs ''employeeId''))"
    and "iso_date (date_now e2) = iso_date (date_now e1)"
  shows "snd (attendance_login e2 (snd (attendance_login e1 root req)) req) =
         snd (attendance_login e2 root req)"
  using assms by (simp add: attendance_login_stores set_at_overwrite)

lemma attendance_path_index_js:
  "attendance_path (\<lambda>parts. Some (JArr parts)) d employeeId =
     ''attendance/'' @ js_toString employeeId @ ''/'' @ iso_date d @ '','' @ iso_time d"
proof -
  have "CHR ''T'' \<notin> set (iso_time d)"
    by (simp add: iso_time_def pad2_def pad3_def)
  then have "js_split CHR ''T'' (toISOString d) = [iso_date d, iso_time d]"
    unfolding toISOString_def
    using js_split_append [OF T_notin_iso_date, of d "iso_time d"]
    by (simp add: js_split_no_sep)
  then show ?thesis
    by (simp add: attendance_path_def js_toString_def)
qed

lemma attendance_path_index_js_invalid:
  "\<not> valid_path_string (attendance_path (\<lambda>parts. Some (JArr parts)) d employeeId)"
  by (simp add: attendance_path_index_js valid_path_string_def path_char_def control_char_def iso_time_def)

lemma attendance_login_index_js_fails:
  "attendance_login_index_js e root req =
     (reply 500 (JObj [(''error'', JStr ''Failed to log attendance'')]), root)"
  using attendance_path_index_js_invalid
  by (cases "get_prop (req_body req) ''employeeId''")
     (simp_all add: attendance_login_index_js_def attendance_login_with_def try_catch_def
        object_def db_ref_def)

lemmas attendance_defs = attendance_login_def attendance_login_index_js_def
  attendance_login_with_def attendance_path_def try_catch_def object_def reply_def
  db_ref_def valid_path_string_def path_char_def control_char_def db_set_object_def db_set_def valid_key_def key_char_def path_char_def control_char_def
  toISOString_def iso_date_def iso_time_def pad2_def pad3_def pad4_def
  digit_def js_toString_def js_index_def parse_path_def child_def children_def Let_def

lemma attendance_login_demo:
  "attendance_login (demo_env demo_tokens) Null (e1_login tok) =
     (reply 200 (JObj [(''success'', JBool True), (''message'', JStr ''Login recorded'')]),
      JObj [(''attendance'',
             JObj [(''e1'',
                    JObj [(''2026-11-03'',
                           JObj [(''loginTime'', JStr ''2026-11-03T10:20:30.000Z''),
                                 (''status'', JStr ''present'')])])])])"
  by (simp add: attendance_defs demo_env_def e1_login_def request_of_def)

text \<open>
  C6. An attendance login of employee \<open>e1\<close> at 2026-11-03T10:20:30.000Z, sent with a valid
  token. In \<open>src/terait-backend/api/index.js\<close> the path built is
  \<open>attendance/e1/2026-11-03,10:20:30.000Z\<close>; the handler answers 500 and stores nothing, and
  the route, whose middleware refuses the token, answers 401 and stores nothing. In
  \<open>src/unnamed/part_000\<close> the route answers success and the record is at
  \<open>attendance/e1/2026-11-03\<close>.
\<close>

theorem attendance_login_index_js_stores_nothing:
  "attendance_path (\<lambda>parts. Some (JArr parts)) (date_now (demo_env demo_tokens))
     (Some (JStr ''e1'')) = ''attendance/e1/2026-11-03,10:20:30.000Z''
   \<and> attendance_login_index_js (demo_env demo_tokens) Null (e1_login ''tok.admin'') =
     (\<lparr>res_status = 500, res_json = JObj [(''error'', JStr ''Failed to log attendance'')]\<rparr>, Null)
   \<and> protected_index_js PostAttendanceLogin (demo_env demo_tokens) Null (e1_login ''tok.admin'') =
     (\<lparr>res_status = 401, res_json = JObj [(''error'', JStr ''Invalid token'')]\<rparr>, Null)
   \<and> protected PostAttendanceLogin (demo_env demo_tokens) Null (e1_login ''tok.admin'') =
     (\<lparr>res_status = 200,
       res_json = JObj [(''success'', JBool True), (''message'', JStr ''Login recorded'')]\<rparr>,
      JObj [(''attendance'',
             JObj [(''e1'',
                    JObj [(''2026-11-03'',
                           JObj [(''loginTime'', JStr ''2026-11-03T10:20:30.000Z''),
                                 (''status'', JStr ''present'')])])])])"
proof -
  let ?e = "demo_env demo_tokens"
  have path: "attendance_path (\<lambda>parts. Some (JArr parts)) (date_now ?e) (Some (JStr ''e1''))
                = ''attendance/e1/2026-11-03,10:20:30.000Z''"
    by (simp add: attendance_defs demo_env_def)
  have bare: "attendance_login_index_js ?e Null (e1_login ''tok.admin'') =
     (\<lparr>res_status = 500, res_json = JObj [(''error'', JStr ''Failed to log attendance'')]\<rparr>, Null)"
    by (simp add: attendance_defs demo_env_def e1_login_def request_of_def)
  have idx: "protected_index_js PostAttendanceLogin ?e Null (e1_login ''tok.admin'') =
     (\<lparr>res_status = 401, res_json = JObj [(''error'', JStr ''Invalid token'')]\<rparr>, Null)"
    by (simp add: protected_index_js_def guarded_def verifyToken_index_js_def
          verifyToken_with_def jwt_verify_def object_def reply_def e1_login_def request_of_def)
  have p0: "protected PostAttendanceLogin ?e Null (e1_login ''tok.admin'') =
     (\<lparr>res_status = 200,
       res_json = JObj [(''success'', JBool True), (''message'', JStr ''Login recorded'')]\<rparr>,
      JObj [(''attendance'',
             JObj [(''e1'',
                    JObj [(''2026-11-03'',
                           JObj [(''loginTime'', JStr ''2026-11-03T10:20:30.000Z''),
                                 (''status'', JStr ''present'')])])])])"
    by (simp add: protected_def guarded_def verifyToken_def verifyToken_with_def js_index_def
          jwt_verify_def attendance_defs demo_env_def demo_tokens_def ana_token_def
          bob_token_def e1_login_def request_of_def)
  from path bare idx p0 show ?thesis by simp
qed

section \<open>No branching on the role\<close>

lemma jwt_verify_valid:
  assumes "jwt_decode e s = Some t" "mac_key t = JWT_SECRET e" "mac_msg t = payload t"
    and "clock e < expires_at (payload t)"
  shows "jwt_verify e (Some (JStr s)) = Inr (decoded (payload t))"
  using assms by (simp add: jwt_verify_def)

lemma verifyToken_valid:
  assumes "req_authorization req = Some (''Bearer '' @ s)" "s \<noteq> []" "CHR '' '' \<notin> set s"
    and "jwt_decode e s = Some t" "mac_key t = JWT_SECRET e" "mac_msg t = payload t"
    and "clock e < expires_at (payload t)"
  shows "verifyToken e req = Next (req\<lparr>req_user := Some (decoded (payload t))\<rparr>)"
  using verifyToken_bearer [of req "''Bearer''" s e] jwt_verify_valid [OF assms(4-7)] assms(1-3)
  by simp

lemma handler_ignores_user: "handler rt e root (req\<lparr>req_user := u\<rparr>) = handler rt e root req"
  by (cases rt)
     (simp_all add: get_employees_def create_employee_def update_employee_def
        delete_employee_def get_attendance_def attendance_login_def attendance_login_with_def
        cong: sum.case_cong)

lemma handler_reads_param_and_body:
  assumes "req_param r1 = req_param r2" "req_body r1 = req_body r2"
  shows "handler rt e root r1 = handler rt e root r2"
  using assms
  by (cases rt)
     (simp_all add: get_employees_def create_employee_def update_employee_def
        delete_employee_def get_attendance_def attendance_login_def attendance_login_with_def
        cong: sum.case_cong)

lemma handler_status:
  "res_status (fst (handler rt e root req)) = 200 \<or> res_status (fst (handler rt e root req)) = 500"
  by (cases rt)
     (auto simp: get_employees_def create_employee_def update_employee_def delete_employee_def
        get_attendance_def attendance_login_def attendance_login_with_def try_catch_def
        reply_def Let_def
        split: sum.splits if_splits)

text \<open>
  C9. Two requests to the same protected route of \<open>src/unnamed/part_000\<close>, with the same
  parameter and body, each carrying after \<open>Bearer\<close> a token that decodes, validates under
  the secret and has not expired: whatever the claims of the two tokens, the role included,
  the middleware passes both on with their decoded claims, the answer to each is the
  answer of the route's handler, never 401, and the two requests get the same response and
  leave the same store.
\<close>

theorem protected_routes_ignore_role:
  assumes hdr1: "req_authorization r1 = Some (''Bearer '' @ s1)" "s1 \<noteq> []" "CHR '' '' \<notin> set s1"
    and tok1: "jwt_decode e s1 = Some t1" "mac_key t1 = JWT_SECRET e" "mac_msg t1 = payload t1"
      "clock e < expires_at (payload t1)"
    and hdr2: "req_authorization r2 = Some (''Bearer '' @ s2)" "s2 \<noteq> []" "CHR '' '' \<notin> set s2"
    and tok2: "jwt_decode e s2 = Some t2" "mac_key t2 = JWT_SECRET e" "mac_msg t2 = payload t2"
      "clock e < expires_at (payload t2)"
    and same: "req_param r1 = req_param r2" "req_body r1 = req_body r2"
  shows "verifyToken e r1 = Next (r1\<lparr>req_user := Some (decoded (payload t1))\<rparr>)
       \<and> verifyToken e r2 = Next (r2\<lparr>req_user := Some (decoded (payload t2))\<rparr>)
       \<and> protected rt e root r1 = handler rt e root r1
       \<and> protected rt e root r2 = protected rt e root r1
       \<and> res_status (fst (protected rt e root r1)) \<noteq> 401"
proof -
  have v1: "verifyToken e r1 = Next (r1\<lparr>req_user := Some (decoded (payload t1))\<rparr>)"
    using hdr1 tok1 by (rule verifyToken_valid)
  have v2: "verifyToken e r2 = Next (r2\<lparr>req_user := Some (decoded (payload t2))\<rparr>)"
    using hdr2 tok2 by (rule verifyToken_valid)
  have p1: "protected rt e root r1 = handler rt e root r1"
    by (simp add: protected_def guarded_def v1 handler_ignores_user)
  have p2: "protected rt e root r2 = handler rt e root r2"
    by (simp add: protected_def guarded_def v2 handler_ignores_user)
  have eq: "handler rt e root r1 = handler rt e root r2"
    using same by (rule handler_reads_param_and_body)
  have st: "res_status (fst (protected rt e root r1)) \<noteq> 401"
    using handler_status [of rt e root r1] unfolding p1 by auto
  from v1 v2 p1 p2 eq st show ?thesis by simp
qed

theorem protected_routes_ignore_role_witness:
  "verifyToken (demo_env demo_tokens) (e1_login ''tok.admin'') =
     Next (e1_login ''tok.admin''
             \<lparr>req_user := Some (JObj [(''userId'', JStr ''-Nu1''), (''email'', JStr ''ana@x.com''),
                                      (''role'', JStr ''admin''), (''iat'', JNum 900),
                                      (''exp'', JNum 87300)])\<rparr>)
   \<and> verifyToken (demo_env demo_tokens) (e1_login ''tok.user'') =
     Next (e1_login ''tok.user''
             \<lparr>req_user := Some (JObj [(''userId'', JStr ''-Nu1''), (''email'', JStr ''ana@x.com''),
                                      (''role'', JStr ''user''), (''iat'', JNum 900),
                                      (''exp'', JNum 87300)])\<rparr>)
   \<and> protected PostAttendanceLogin (demo_env demo_tokens) Null (e1_login ''tok.user'') =
     protected PostAttendanceLogin (demo_env demo_tokens) Null (e1_login ''tok.admin'')
   \<and> protected PostAttendanceLogin (demo_env demo_tokens) Null (e1_login ''tok.admin'') =
     (reply 200 (JObj [(''success'', JBool True), (''message'', JStr ''Login recorded'')]),
      JObj [(''attendance'',
             JObj [(''e1'',
                    JObj [(''2026-11-03'',
                           JObj [(''loginTime'', JStr ''2026-11-03T10:20:30.000Z''),
                                 (''status'', JStr ''present'')])])])])"
proof -
  let ?e = "demo_env demo_tokens"
  have hdr: "req_authorization (e1_login ''tok.admin'') = Some (''Bearer '' @ ''tok.admin'')"
    "''tok.admin'' \<noteq> []" "CHR '' '' \<notin> set ''tok.admin''"
    "req_authorization (e1_login ''tok.user'') = Some (''Bearer '' @ ''tok.user'')"
    "''tok.user'' \<noteq> []" "CHR '' '' \<notin> set ''tok.user''"
    by (simp_all add: e1_login_def request_of_def)
  have admin: "jwt_decode ?e ''tok.admin'' = Some (ana_token ''admin'')"
    "mac_key (ana_token ''admin'') = JWT_SECRET ?e"
    "mac_msg (ana_token ''admin'') = payload (ana_token ''admin'')"
    "clock ?e < expires_at (payload (ana_token ''admin''))"
    by (simp_all add: demo_env_def demo_tokens_def ana_token_def Let_def)
  have user: "jwt_decode ?e ''tok.user'' = Some (ana_token ''user'')"
    "mac_key (ana_token ''user'') = JWT_SECRET ?e"
    "mac_msg (ana_token ''user'') = payload (ana_token ''user'')"
    "clock ?e < expires_at (payload (ana_token ''user''))"
    by (simp_all add: demo_env_def demo_tokens_def ana_token_def Let_def)
  have same: "req_param (e1_login ''tok.admin'') = req_param (e1_login ''tok.user'')"
    "req_body (e1_login ''tok.admin'') = req_body (e1_login ''tok.user'')"
    by (simp_all add: e1_login_def request_of_def)
  have claims: "decoded (payload (ana_token ''admin'')) =
      JObj [(''userId'', JStr ''-Nu1''), (''email'', JStr ''ana@x.com''),
            (''role'', JStr ''admin''), (''iat'', JNum 900), (''exp'', JNum 87300)]"
    "decoded (payload (ana_token ''user'')) =
      JObj [(''userId'', JStr ''-Nu1''), (''email'', JStr ''ana@x.com''),
            (''role'', JStr ''user''), (''iat'', JNum 900), (''exp'', JNum 87300)]"
    by (simp_all add: decoded_def ana_token_def Let_def)
  from protected_routes_ignore_role
         [OF hdr(1-3) admin hdr(4-6) user same, of PostAttendanceLogin Null]
  show ?thesis
    unfolding claims by (simp add: attendance_login_demo)
qed

end
